theory Spec2Isabelle
  imports Main "HOL-Library.Sublist"
begin

section \<open>Python values that server.py handles\<close>

text \<open>
  An exception is either an instance of Exception (the class that the handler
  \<^verbatim>\<open>except Exception as e\<close> catches) or an instance of BaseException only
  (KeyboardInterrupt, SystemExit, GeneratorExit, asyncio.CancelledError), which that
  handler lets through. The string is what \<^verbatim>\<open>str(e)\<close> returns.
\<close>

datatype pyexn = Exception string | BaseException string

fun str :: "pyexn \<Rightarrow> string" where
  "str (Exception m) = m"
| "str (BaseException m) = m"

text \<open>
  The class UnityConnection is imported from the module unity_connection, which is not
  part of the sources at hand. server.py uses two things of an instance: its truth value
  (\<^verbatim>\<open>if _unity_connection:\<close>) and its method disconnect. Both are fields of the
  object here, so every behaviour of the absent class is covered: \<open>truthy\<close> is
  \<^verbatim>\<open>bool(obj)\<close>, and \<open>disconnect_raises\<close> is \<open>None\<close> when
  \<^verbatim>\<open>obj.disconnect()\<close> returns and \<open>Some e\<close> when it raises \<open>e\<close>.
\<close>

record UnityConnection =
  conn_id :: nat
  truthy :: bool
  disconnect_raises :: "pyexn option"

text \<open>The FastMCP instance, as far as server.py touches it.\<close>

record FastMCP =
  mcp_name :: string
  mcp_description :: string
  mcp_lifespan :: string
  mcp_tools :: "string list"
  mcp_prompts :: "string list"

section \<open>The module state and what the module does to the outside\<close>

text \<open>
  Every call that leaves server.py and every assignment to the global
  \<^verbatim>\<open>_unity_connection\<close> is recorded, in program order. A call of disconnect
  records the value it is called on, so a call on \<^verbatim>\<open>None\<close> would show as
  \<open>Call_disconnect None\<close>. A call of register_all_tools records the instance it is
  called on.
\<close>

datatype event =
    Call_basicConfig
  | Call_getLogger string
  | Call_FastMCP
  | Call_register_all_tools FastMCP
  | Call_prompt string
  | Log_info string
  | Log_warning string
  | Call_get_unity_connection
  | Call_disconnect "UnityConnection option"
  | Assign_unity_connection "UnityConnection option"

record state =
  unity_connection :: "UnityConnection option"
  mcp :: FastMCP
  trace :: "event list"

text \<open>
  \<^verbatim>\<open>get_unity_connection\<close> is imported too. What its calls do is given by the
  world: the outcome of the call that has \<open>k\<close> calls before it. It returns a
  UnityConnection, as its annotation says, or raises.
\<close>

type_synonym world = "nat \<Rightarrow> pyexn + UnityConnection"

type_synonym context_dict = "string \<rightharpoonup> UnityConnection option"

text \<open>
  How the caller leaves the body of \<^verbatim>\<open>async with server_lifespan(server)\<close>: the
  generator is resumed, or an exception is thrown into it at the yield.
\<close>

datatype resume = Resume | Throw pyexn

definition emit :: "event \<Rightarrow> state \<Rightarrow> state" where
  "emit e s = s\<lparr>trace := trace s @ [e]\<rparr>"

definition emitted :: "state \<Rightarrow> state \<Rightarrow> event list" where
  "emitted s s' = drop (length (trace s)) (trace s')"

definition logger_info :: "string \<Rightarrow> state \<Rightarrow> state" where
  "logger_info m s = emit (Log_info m) s"

definition logger_warning :: "string \<Rightarrow> state \<Rightarrow> state" where
  "logger_warning m s = emit (Log_warning m) s"

definition assign_unity_connection :: "UnityConnection option \<Rightarrow> state \<Rightarrow> state" where
  "assign_unity_connection v s = emit (Assign_unity_connection v) (s\<lparr>unity_connection := v\<rparr>)"

definition calls_so_far :: "state \<Rightarrow> nat" where
  "calls_so_far s = count_list (trace s) Call_get_unity_connection"

definition get_unity_connection :: "world \<Rightarrow> state \<Rightarrow> (pyexn + UnityConnection) \<times> state" where
  "get_unity_connection w s = (w (calls_so_far s), emit Call_get_unity_connection s)"

text \<open>The truth value of what the global holds: \<^verbatim>\<open>None\<close> is false.\<close>

definition py_bool :: "UnityConnection option \<Rightarrow> bool" where
  "py_bool v = (case v of None \<Rightarrow> False | Some c \<Rightarrow> truthy c)"

text \<open>
  \<^verbatim>\<open>v.disconnect()\<close>: on \<^verbatim>\<open>None\<close> the attribute lookup raises
  AttributeError, on an object the method runs.
\<close>

definition call_disconnect :: "UnityConnection option \<Rightarrow> state \<Rightarrow> pyexn option \<times> state" where
  "call_disconnect v s =
     (case v of
        None \<Rightarrow>
          (Some (Exception (CHR 0x27 # ''NoneType' object has no attribute 'disconnect'' @ [CHR 0x27])),
           emit (Call_disconnect None) s)
      | Some c \<Rightarrow> (disconnect_raises c, emit (Call_disconnect (Some c)) s))"

section \<open>server_lifespan\<close>

text \<open>
  The generator has two segments. \<open>startup\<close> runs from the call to the yield (lines
  24 to 34): its result is the yielded dictionary, or the exception that leaves the
  generator before it yields.
\<close>

definition startup :: "world \<Rightarrow> state \<Rightarrow> (pyexn + context_dict) \<times> state" where
  "startup w s0 =
     (let s1 = logger_info ''UnityMCP server starting up'' s0;
          (r, s2) = get_unity_connection w s1
      in case r of
           Inr c \<Rightarrow>
             (let s3 = assign_unity_connection (Some c) s2;
                  s4 = logger_info ''Connected to Unity on startup'' s3
              in (Inr [''bridge'' \<mapsto> unity_connection s4], s4))
         | Inl (Exception m) \<Rightarrow>
             (let s3 = logger_warning (''Could not connect to Unity on startup: '' @ str (Exception m)) s2;
                  s4 = assign_unity_connection None s3
              in (Inr [''bridge'' \<mapsto> unity_connection s4], s4))
         | Inl (BaseException m) \<Rightarrow> (Inl (BaseException m), s2))"

text \<open>
  \<open>shutdown\<close> runs from the yield to the end (lines 35 to 39): the finally block,
  entered by a resumption or by an exception thrown in. An exception raised inside the
  finally block leaves it at once and replaces the one thrown in. The result is the
  exception that leaves the generator, if any.
\<close>

definition shutdown :: "resume \<Rightarrow> state \<Rightarrow> pyexn option \<times> state" where
  "shutdown r s0 =
     (let (x, s2) =
            (if py_bool (unity_connection s0) then
               (let (d, s1) = call_disconnect (unity_connection s0) s0
                in case d of
                     Some e \<Rightarrow> (Some e, s1)
                   | None \<Rightarrow> (None, assign_unity_connection None s1))
             else (None, s0))
      in case x of
           Some e \<Rightarrow> (Some e, s2)
         | None \<Rightarrow>
             (let s3 = logger_info ''UnityMCP server shut down'' s2
              in case r of Resume \<Rightarrow> (None, s3) | Throw e \<Rightarrow> (Some e, s3)))"

text \<open>
  One execution of \<^verbatim>\<open>async with server_lifespan(server) as ctx: body\<close>. The body
  gets the yielded dictionary and decides how the generator is left.
\<close>

definition server_lifespan :: "world \<Rightarrow> (context_dict \<Rightarrow> resume) \<Rightarrow> state \<Rightarrow> pyexn option \<times> state" where
  "server_lifespan w body s0 =
     (case startup w s0 of
        (Inl e, s1) \<Rightarrow> (Some e, s1)
      | (Inr ctx, s1) \<Rightarrow> shutdown (body ctx) s1)"

section \<open>Module initialisation and the prompt\<close>

text \<open>
  The module body (lines 11 to 54) runs top to bottom, with no branch. Lines 11 to 46
  configure the logging, bind the global to \<^verbatim>\<open>None\<close> and construct the FastMCP
  instance, which has no tool and no prompt yet.
\<close>

definition new_FastMCP :: FastMCP where
  "new_FastMCP =
     \<lparr>mcp_name = ''UnityMCP'',
      mcp_description = ''Unity Editor integration via Model Context Protocol'',
      mcp_lifespan = ''server_lifespan'',
      mcp_tools = [],
      mcp_prompts = []\<rparr>"

definition module_at_line_46 :: state where
  "module_at_line_46 =
     \<lparr>unity_connection = None,
      mcp = new_FastMCP,
      trace = [Call_basicConfig, Call_getLogger ''UnityMCP'', Assign_unity_connection None,
               Call_FastMCP]\<rparr>"

text \<open>
  Line 49, \<^verbatim>\<open>register_all_tools(mcp)\<close>. The function comes from the package tools,
  which is not part of the sources at hand: it is a parameter, any function on the FastMCP
  instance. The call is recorded with the instance it gets, and what it makes of the
  instance is the instance from then on.
\<close>

definition call_register_all_tools :: "(FastMCP \<Rightarrow> FastMCP) \<Rightarrow> state \<Rightarrow> state" where
  "call_register_all_tools register_all_tools s =
     emit (Call_register_all_tools (mcp s)) (s\<lparr>mcp := register_all_tools (mcp s)\<rparr>)"

text \<open>Lines 53 and 54, \<^verbatim>\<open>@mcp.prompt()\<close> on a function: the instance gets one more prompt.\<close>

definition mcp_prompt :: "string \<Rightarrow> state \<Rightarrow> state" where
  "mcp_prompt f s =
     emit (Call_prompt f) (s\<lparr>mcp := (mcp s)\<lparr>mcp_prompts := mcp_prompts (mcp s) @ [f]\<rparr>\<rparr>)"

definition module_init :: "(FastMCP \<Rightarrow> FastMCP) \<Rightarrow> state" where
  "module_init register_all_tools =
     (let s1 = call_register_all_tools register_all_tools module_at_line_46;
          s2 = mcp_prompt ''asset_creation_strategy'' s1
      in s2)"

text \<open>
  A run of the server: the module is initialised, then \<^verbatim>\<open>mcp.run\<close> serves inside
  the lifespan.
\<close>

definition main :: "(FastMCP \<Rightarrow> FastMCP) \<Rightarrow> world \<Rightarrow> (context_dict \<Rightarrow> resume) \<Rightarrow> pyexn option \<times> state" where
  "main register_all_tools w body = server_lifespan w body (module_init register_all_tools)"

text \<open>
  In the source each line of the prompt ends in \<^verbatim>\<open>\\n\<close>, an escaped backslash
  followed by the letter n.
\<close>

definition bsn :: string where
  "bsn = [CHR 0x5C, CHR ''n'']"

text \<open>The function takes no argument; the state it is called in is made explicit.\<close>

definition asset_creation_strategy :: "state \<Rightarrow> string" where
  "asset_creation_strategy s =
     ''Available Unity MCP Server Tools:'' @ bsn @ bsn @
     ''For detailed usage, please refer to the specific tool's documentation.'' @ bsn @ bsn @
     ''- `manage_editor`: Controls editor state (play/pause/stop) and queries info (state, selection).'' @ bsn @
     ''- `execute_menu_item`: Executes Unity Editor menu items by path (e.g., 'File/Save Project').'' @ bsn @
     ''- `read_console`: Reads or clears Unity console messages, with filtering options.'' @ bsn @
     ''- `manage_scene`: Manages scenes (load, save, create, get hierarchy).'' @ bsn @
     ''- `manage_gameobject`: Manages GameObjects in the scene (CRUD, find, components, assign properties).'' @ bsn @
     ''- `manage_script`: Manages C# script files (CRUD).'' @ bsn @
     ''- `manage_asset`: Manages project assets (import, create, modify, delete, search).'' @ bsn @ bsn"

section \<open>Reading a trace\<close>

text \<open>How the generator ends once the finally block has run to its end.\<close>

definition leaves :: "resume \<Rightarrow> pyexn option" where
  "leaves r = (case r of Resume \<Rightarrow> None | Throw e \<Rightarrow> Some e)"

text \<open>The values that disconnect was called on, in order.\<close>

fun disconnect_calls :: "event list \<Rightarrow> UnityConnection option list" where
  "disconnect_calls [] = []"
| "disconnect_calls (Call_disconnect v # es) = v # disconnect_calls es"
| "disconnect_calls (e # es) = disconnect_calls es"

text \<open>The instances that register_all_tools was called on, in order.\<close>

fun register_calls :: "event list \<Rightarrow> FastMCP list" where
  "register_calls [] = []"
| "register_calls (Call_register_all_tools m # es) = m # register_calls es"
| "register_calls (e # es) = register_calls es"

text \<open>The values assigned to the global, in order.\<close>

fun assigned :: "event list \<Rightarrow> UnityConnection option list" where
  "assigned [] = []"
| "assigned (Assign_unity_connection v # es) = v # assigned es"
| "assigned (e # es) = assigned es"

section \<open>Concrete runs\<close>

definition example_connection :: UnityConnection where
  "example_connection = \<lparr>conn_id = 1, truthy = True, disconnect_raises = None\<rparr>"

definition editor_running :: world where
  "editor_running k = Inr example_connection"

definition editor_absent :: world where
  "editor_absent k = Inl (Exception ''Connection refused'')"

definition interrupted_connect :: world where
  "interrupted_connect k = Inl (BaseException ''KeyboardInterrupt'')"

definition served :: "context_dict \<Rightarrow> resume" where
  "served ctx = Resume"

definition crashed :: "context_dict \<Rightarrow> resume" where
  "crashed ctx = Throw (Exception ''stdin closed'')"

definition example_tools :: "FastMCP \<Rightarrow> FastMCP" where
  "example_tools m =
     m\<lparr>mcp_tools := mcp_tools m @
        [''manage_editor'', ''execute_menu_item'', ''read_console'', ''manage_scene'',
         ''manage_gameobject'', ''manage_script'', ''manage_asset'']\<rparr>"

section \<open>The segments, case by case\<close>

lemma trace_emit [simp]: "trace (emit e s) = trace s @ [e]"
  by (simp add: emit_def)

lemma unity_connection_emit [simp]: "unity_connection (emit e s) = unity_connection s"
  by (simp add: emit_def)

lemma mcp_emit [simp]: "mcp (emit e s) = mcp s"
  by (simp add: emit_def)

lemma emitted_update [simp]: "emitted s (s\<lparr>trace := trace s @ es\<rparr>) = es"
  by (simp add: emitted_def)

lemma emitted_update' [simp]:
  "emitted s (s\<lparr>unity_connection := v, trace := trace s @ es\<rparr>) = es"
  by (simp add: emitted_def)

lemma startup_connected:
  assumes "w (calls_so_far s) = Inr c"
  shows "startup w s =
    (Inr [''bridge'' \<mapsto> Some c],
     s\<lparr>unity_connection := Some c,
       trace := trace s @ [Log_info ''UnityMCP server starting up'', Call_get_unity_connection,
                           Assign_unity_connection (Some c), Log_info ''Connected to Unity on startup'']\<rparr>)"
  using assms
  by (simp add: startup_def get_unity_connection_def logger_info_def assign_unity_connection_def
      calls_so_far_def emit_def)

lemma startup_failed:
  assumes "w (calls_so_far s) = Inl (Exception m)"
  shows "startup w s =
    (Inr [''bridge'' \<mapsto> None],
     s\<lparr>unity_connection := None,
       trace := trace s @ [Log_info ''UnityMCP server starting up'', Call_get_unity_connection,
                           Log_warning (''Could not connect to Unity on startup: '' @ m),
                           Assign_unity_connection None]\<rparr>)"
  using assms
  by (simp add: startup_def get_unity_connection_def logger_info_def logger_warning_def
      assign_unity_connection_def calls_so_far_def emit_def)

lemma startup_interrupted:
  assumes "w (calls_so_far s) = Inl (BaseException m)"
  shows "startup w s =
    (Inl (BaseException m),
     s\<lparr>trace := trace s @ [Log_info ''UnityMCP server starting up'', Call_get_unity_connection]\<rparr>)"
  using assms
  by (simp add: startup_def get_unity_connection_def logger_info_def calls_so_far_def emit_def)

lemma shutdown_absent:
  assumes "\<not> py_bool (unity_connection s)"
  shows "shutdown r s =
    (leaves r, s\<lparr>trace := trace s @ [Log_info ''UnityMCP server shut down'']\<rparr>)"
  using assms
  by (simp add: shutdown_def logger_info_def emit_def leaves_def split: resume.splits)

lemma shutdown_disconnected:
  assumes "unity_connection s = Some c" "truthy c" "disconnect_raises c = None"
  shows "shutdown r s =
    (leaves r,
     s\<lparr>unity_connection := None,
       trace := trace s @ [Call_disconnect (Some c), Assign_unity_connection None,
                           Log_info ''UnityMCP server shut down'']\<rparr>)"
  using assms
  by (simp add: shutdown_def py_bool_def call_disconnect_def logger_info_def
      assign_unity_connection_def emit_def leaves_def split: resume.splits)

lemma shutdown_disconnect_raised:
  assumes "unity_connection s = Some c" "truthy c" "disconnect_raises c = Some e"
  shows "shutdown r s = (Some e, s\<lparr>trace := trace s @ [Call_disconnect (Some c)]\<rparr>)"
  using assms
  by (simp add: shutdown_def py_bool_def call_disconnect_def emit_def)

text \<open>A shutdown emits one of three traces, chosen by what the global holds.\<close>

lemma shutdown_cases:
  obtains (absent) "\<not> py_bool (unity_connection s)"
      "emitted s (snd (shutdown r s)) = [Log_info ''UnityMCP server shut down'']"
      "fst (shutdown r s) = leaves r"
  | (disconnected) c where "unity_connection s = Some c" "truthy c" "disconnect_raises c = None"
      "emitted s (snd (shutdown r s)) =
         [Call_disconnect (Some c), Assign_unity_connection None, Log_info ''UnityMCP server shut down'']"
      "fst (shutdown r s) = leaves r"
  | (raised) c e where "unity_connection s = Some c" "truthy c" "disconnect_raises c = Some e"
      "emitted s (snd (shutdown r s)) = [Call_disconnect (Some c)]"
      "fst (shutdown r s) = Some e"
proof (cases "py_bool (unity_connection s)")
  case False
  then show ?thesis using absent by (simp add: shutdown_absent)
next
  case True
  then obtain c where c: "unity_connection s = Some c" "truthy c"
    by (auto simp: py_bool_def split: option.splits)
  show ?thesis
  proof (cases "disconnect_raises c")
    case None
    with c show ?thesis using disconnected by (simp add: shutdown_disconnected)
  next
    case (Some e)
    with c show ?thesis using raised by (simp add: shutdown_disconnect_raised)
  qed
qed

section \<open>A whole execution, case by case\<close>

lemma lifespan_connected:
  assumes "w (calls_so_far s) = Inr c" "truthy c" "disconnect_raises c = None"
  shows "server_lifespan w body s =
    (leaves (body [''bridge'' \<mapsto> Some c]),
     s\<lparr>unity_connection := None,
       trace := trace s @ [Log_info ''UnityMCP server starting up'', Call_get_unity_connection,
                           Assign_unity_connection (Some c), Log_info ''Connected to Unity on startup'',
                           Call_disconnect (Some c), Assign_unity_connection None,
                           Log_info ''UnityMCP server shut down'']\<rparr>)"
  using assms
  by (simp add: server_lifespan_def startup_connected shutdown_disconnected)

lemma lifespan_disconnect_raised:
  assumes "w (calls_so_far s) = Inr c" "truthy c" "disconnect_raises c = Some e"
  shows "server_lifespan w body s =
    (Some e,
     s\<lparr>unity_connection := Some c,
       trace := trace s @ [Log_info ''UnityMCP server starting up'', Call_get_unity_connection,
                           Assign_unity_connection (Some c), Log_info ''Connected to Unity on startup'',
                           Call_disconnect (Some c)]\<rparr>)"
  using assms
  by (simp add: server_lifespan_def startup_connected shutdown_disconnect_raised)

lemma lifespan_falsy:
  assumes "w (calls_so_far s) = Inr c" "\<not> truthy c"
  shows "server_lifespan w body s =
    (leaves (body [''bridge'' \<mapsto> Some c]),
     s\<lparr>unity_connection := Some c,
       trace := trace s @ [Log_info ''UnityMCP server starting up'', Call_get_unity_connection,
                           Assign_unity_connection (Some c), Log_info ''Connected to Unity on startup'',
                           Log_info ''UnityMCP server shut down'']\<rparr>)"
  using assms
  by (simp add: server_lifespan_def startup_connected shutdown_absent py_bool_def)

lemma lifespan_failed:
  assumes "w (calls_so_far s) = Inl (Exception m)"
  shows "server_lifespan w body s =
    (leaves (body [''bridge'' \<mapsto> None]),
     s\<lparr>unity_connection := None,
       trace := trace s @ [Log_info ''UnityMCP server starting up'', Call_get_unity_connection,
                           Log_warning (''Could not connect to Unity on startup: '' @ m),
                           Assign_unity_connection None,
                           Log_info ''UnityMCP server shut down'']\<rparr>)"
  using assms
  by (simp add: server_lifespan_def startup_failed shutdown_absent py_bool_def)

lemma lifespan_interrupted:
  assumes "w (calls_so_far s) = Inl (BaseException m)"
  shows "server_lifespan w body s =
    (Some (BaseException m),
     s\<lparr>trace := trace s @ [Log_info ''UnityMCP server starting up'', Call_get_unity_connection]\<rparr>)"
  using assms
  by (simp add: server_lifespan_def startup_interrupted)

lemma outcome_cases:
  obtains (connected) c where "x = Inr c" "truthy c" "disconnect_raises c = None"
  | (raised) c e where "x = Inr c" "truthy c" "disconnect_raises c = Some e"
  | (falsy) c where "x = Inr c" "\<not> truthy c"
  | (failed) m where "x = Inl (Exception m)"
  | (interrupted) m where "x = Inl (BaseException m)"
proof (cases x)
  case (Inl e)
  then show ?thesis using failed interrupted by (cases e) auto
next
  case (Inr c)
  then show ?thesis using connected raised falsy by (cases "disconnect_raises c") auto
qed

text \<open>The module body, statement by statement.\<close>

lemma module_init_eq:
  "module_init reg =
     \<lparr>unity_connection = None,
      mcp = (reg new_FastMCP)\<lparr>mcp_prompts := mcp_prompts (reg new_FastMCP) @ [''asset_creation_strategy'']\<rparr>,
      trace = [Call_basicConfig, Call_getLogger ''UnityMCP'', Assign_unity_connection None,
               Call_FastMCP, Call_register_all_tools new_FastMCP,
               Call_prompt ''asset_creation_strategy'']\<rparr>"
  by (simp add: module_init_def call_register_all_tools_def mcp_prompt_def module_at_line_46_def
      emit_def)

lemma calls_so_far_module_init [simp]: "calls_so_far (module_init reg) = 0"
  by (simp add: calls_so_far_def module_init_eq)

lemma unity_connection_module_init [simp]: "unity_connection (module_init reg) = None"
  by (simp add: module_init_eq)

lemma mcp_server_lifespan: "mcp (snd (server_lifespan w body s)) = mcp s"
  by (cases "w (calls_so_far s)" rule: outcome_cases)
    (simp_all add: lifespan_connected lifespan_disconnect_raised lifespan_falsy lifespan_failed
      lifespan_interrupted)

lemma trace_server_lifespan:
  "trace (snd (server_lifespan w body s)) = trace s @ emitted s (snd (server_lifespan w body s))"
  by (cases "w (calls_so_far s)" rule: outcome_cases)
    (simp_all add: lifespan_connected lifespan_disconnect_raised lifespan_falsy lifespan_failed
      lifespan_interrupted)

lemma register_not_emitted:
  "register_calls (emitted s (snd (server_lifespan w body s))) = []"
  by (cases "w (calls_so_far s)" rule: outcome_cases)
    (simp_all add: lifespan_connected lifespan_disconnect_raised lifespan_falsy lifespan_failed
      lifespan_interrupted)

section \<open>The claims\<close>

text \<open>
  C1, as the code has it. The claim says that a failure of get_unity_connection at startup
  is propagated by server_lifespan. The handler of lines 28 to 30 does the opposite for
  every instance of Exception: the exception is caught, its text goes verbatim into a
  warning of the log, and the generator goes on to yield a dictionary whose bridge is
  None, so that the execution ends the way its body ends. Only an exception outside the
  class Exception leaves server_lifespan, unchanged.
\<close>

theorem startup_failure_is_suppressed:
  "(w (calls_so_far s) = Inl (Exception m) \<longrightarrow>
      fst (startup w s) = Inr [''bridge'' \<mapsto> None] \<and>
      Log_warning (''Could not connect to Unity on startup: '' @ m)
        \<in> set (emitted s (snd (startup w s))) \<and>
      fst (server_lifespan w body s) = leaves (body [''bridge'' \<mapsto> None])) \<and>
   (w (calls_so_far s) = Inl (BaseException m) \<longrightarrow>
      fst (startup w s) = Inl (BaseException m) \<and>
      fst (server_lifespan w body s) = Some (BaseException m))"
  by (simp add: startup_failed startup_interrupted lifespan_failed lifespan_interrupted)

theorem startup_failure_is_suppressed_witness:
  "editor_absent (calls_so_far (module_init example_tools)) = Inl (Exception ''Connection refused'') \<and>
   Log_warning ''Could not connect to Unity on startup: Connection refused''
     \<in> set (emitted (module_init example_tools) (snd (startup editor_absent (module_init example_tools)))) \<and>
   fst (server_lifespan editor_absent crashed (module_init example_tools)) = Some (Exception ''stdin closed'') \<and>
   interrupted_connect (calls_so_far (module_init example_tools)) = Inl (BaseException ''KeyboardInterrupt'') \<and>
   fst (server_lifespan interrupted_connect served (module_init example_tools)) = Some (BaseException ''KeyboardInterrupt'')"
  using startup_failure_is_suppressed [of editor_absent "module_init example_tools" "''Connection refused''" crashed]
    startup_failure_is_suppressed [of interrupted_connect "module_init example_tools" "''KeyboardInterrupt''" served]
  by (simp add: editor_absent_def interrupted_connect_def crashed_def leaves_def)

text \<open>
  C1, as the claim states it, fails: in a fresh module whose call of get_unity_connection
  raises the Exception with the text Connection refused, the startup yields and the whole execution
  ends with no exception at all.
\<close>

theorem connection_error_not_surfaced:
  "editor_absent (calls_so_far (module_init example_tools)) = Inl (Exception ''Connection refused'') \<and>
   fst (startup editor_absent (module_init example_tools)) = Inr [''bridge'' \<mapsto> None] \<and>
   fst (server_lifespan editor_absent served (module_init example_tools)) = None"
  by (simp add: startup_failed lifespan_failed editor_absent_def served_def leaves_def)

text \<open>
  C2. One execution of server_lifespan calls get_unity_connection exactly once, whatever
  the world, the body and the state it starts in. The call is in the segment before the
  yield; the segment after the yield makes none. At most one connection object is ever
  assigned to the global in the execution.
\<close>

theorem single_connection_attempt:
  "count_list (emitted s (snd (server_lifespan w body s))) Call_get_unity_connection = 1 \<and>
   count_list (emitted s (snd (startup w s))) Call_get_unity_connection = 1 \<and>
   count_list (emitted s' (snd (shutdown r s'))) Call_get_unity_connection = 0 \<and>
   length (filter (\<lambda>v. v \<noteq> None) (assigned (emitted s (snd (server_lifespan w body s))))) \<le> 1"
proof (intro conjI)
  show "count_list (emitted s (snd (server_lifespan w body s))) Call_get_unity_connection = 1"
    by (cases "w (calls_so_far s)" rule: outcome_cases)
      (simp_all add: lifespan_connected lifespan_disconnect_raised lifespan_falsy lifespan_failed
        lifespan_interrupted)
  show "count_list (emitted s (snd (startup w s))) Call_get_unity_connection = 1"
    by (cases "w (calls_so_far s)" rule: outcome_cases)
      (simp_all add: startup_connected startup_failed startup_interrupted)
  show "count_list (emitted s' (snd (shutdown r s'))) Call_get_unity_connection = 0"
    by (cases s' r rule: shutdown_cases) simp_all
  show "length (filter (\<lambda>v. v \<noteq> None) (assigned (emitted s (snd (server_lifespan w body s))))) \<le> 1"
    by (cases "w (calls_so_far s)" rule: outcome_cases)
      (simp_all add: lifespan_connected lifespan_disconnect_raised lifespan_falsy lifespan_failed
        lifespan_interrupted)
qed

theorem single_connection_attempt_witness:
  "count_list (emitted (module_init example_tools)
      (snd (server_lifespan editor_running served (module_init example_tools)))) Call_get_unity_connection = 1 \<and>
   assigned (emitted (module_init example_tools)
      (snd (server_lifespan editor_running served (module_init example_tools)))) = [Some example_connection, None]"
  using single_connection_attempt [of "module_init example_tools" editor_running served]
  by (simp add: lifespan_connected editor_running_def example_connection_def)

text \<open>
  C3. When the startup call returns a connection, every execution calls disconnect on it
  exactly once, and on nothing else, whether the body ends normally or by an exception.
  When that call returns, the global is None at the end and the assignment of None comes
  right after the call. The connection is taken to be true in a condition, as an instance
  of a class with neither \<^verbatim>\<open>__bool__\<close> nor \<^verbatim>\<open>__len__\<close> is.
\<close>

theorem teardown_on_every_exit:
  assumes "w (calls_so_far s) = Inr c" and "truthy c"
  shows "disconnect_calls (emitted s (snd (server_lifespan w body s))) = [Some c] \<and>
    (disconnect_raises c = None \<longrightarrow>
       unity_connection (snd (server_lifespan w body s)) = None \<and>
       fst (server_lifespan w body s) = leaves (body [''bridge'' \<mapsto> Some c]) \<and>
       emitted s (snd (server_lifespan w body s)) =
         [Log_info ''UnityMCP server starting up'', Call_get_unity_connection,
          Assign_unity_connection (Some c), Log_info ''Connected to Unity on startup'',
          Call_disconnect (Some c), Assign_unity_connection None,
          Log_info ''UnityMCP server shut down''])"
proof (cases "disconnect_raises c")
  case None
  with assms show ?thesis by (simp add: lifespan_connected)
next
  case (Some e)
  with assms show ?thesis by (simp add: lifespan_disconnect_raised)
qed

theorem teardown_on_every_exit_witness:
  "editor_running (calls_so_far (module_init example_tools)) = Inr example_connection \<and>
   truthy example_connection \<and>
   disconnect_raises example_connection = None \<and>
   disconnect_calls (emitted (module_init example_tools)
      (snd (server_lifespan editor_running crashed (module_init example_tools)))) = [Some example_connection] \<and>
   unity_connection (snd (server_lifespan editor_running crashed (module_init example_tools))) = None \<and>
   fst (server_lifespan editor_running crashed (module_init example_tools)) = Some (Exception ''stdin closed'') \<and>
   disconnect_calls (emitted (module_init example_tools)
      (snd (server_lifespan editor_running served (module_init example_tools)))) = [Some example_connection] \<and>
   unity_connection (snd (server_lifespan editor_running served (module_init example_tools))) = None \<and>
   fst (server_lifespan editor_running served (module_init example_tools)) = None"
proof -
  have h1: "editor_running (calls_so_far (module_init example_tools)) = Inr example_connection"
    by (simp add: editor_running_def)
  have h2: "truthy example_connection"
    by (simp add: example_connection_def)
  have h3: "disconnect_raises example_connection = None"
    by (simp add: example_connection_def)
  show ?thesis
    using teardown_on_every_exit [of editor_running "module_init example_tools" example_connection crashed]
      teardown_on_every_exit [of editor_running "module_init example_tools" example_connection served]
      h1 h2 h3
    by (simp add: crashed_def served_def leaves_def)
qed

text \<open>
  C4. When the startup call fails with an exception that the handler catches, the global
  is None at the yield and at the end of the execution, None is the only value assigned to
  it, get_unity_connection is called once and disconnect never.
\<close>

theorem no_retry_after_failed_connection:
  assumes "w (calls_so_far s) = Inl (Exception m)"
  shows "unity_connection (snd (startup w s)) = None \<and>
    unity_connection (snd (server_lifespan w body s)) = None \<and>
    assigned (emitted s (snd (server_lifespan w body s))) = [None] \<and>
    count_list (emitted s (snd (server_lifespan w body s))) Call_get_unity_connection = 1 \<and>
    disconnect_calls (emitted s (snd (server_lifespan w body s))) = []"
  using assms by (simp add: startup_failed lifespan_failed)

theorem no_retry_after_failed_connection_witness:
  "editor_absent (calls_so_far (module_init example_tools)) = Inl (Exception ''Connection refused'') \<and>
   unity_connection (snd (server_lifespan editor_absent served (module_init example_tools))) = None \<and>
   assigned (emitted (module_init example_tools)
     (snd (server_lifespan editor_absent served (module_init example_tools)))) = [None] \<and>
   count_list (emitted (module_init example_tools)
     (snd (server_lifespan editor_absent served (module_init example_tools)))) Call_get_unity_connection = 1"
proof -
  have h: "editor_absent (calls_so_far (module_init example_tools)) = Inl (Exception ''Connection refused'')"
    by (simp add: editor_absent_def)
  show ?thesis
    using no_retry_after_failed_connection
      [of editor_absent "module_init example_tools" "''Connection refused''" served] h
    by simp
qed

text \<open>
  C5. The module body calls register_all_tools exactly once, on the FastMCP instance it
  has just constructed, on a path with no branch and before any call of
  get_unity_connection. The tools of the instance are what that one call made of the new
  instance. A run of the server makes no further call of register_all_tools and leaves the
  FastMCP instance as the module body made it, so two runs with the same
  register_all_tools expose the same tools, whatever the editor connection and the body
  do.
\<close>

theorem tools_registered_once_at_import:
  "register_calls (trace (module_init reg)) = [new_FastMCP] \<and>
   mcp (module_init reg) =
     (reg new_FastMCP)\<lparr>mcp_prompts := mcp_prompts (reg new_FastMCP) @ [''asset_creation_strategy'']\<rparr> \<and>
   mcp_tools (mcp (module_init reg)) = mcp_tools (reg new_FastMCP) \<and>
   Call_get_unity_connection \<notin> set (trace (module_init reg)) \<and>
   trace (snd (main reg w body)) =
     trace (module_init reg) @ emitted (module_init reg) (snd (main reg w body)) \<and>
   register_calls (emitted (module_init reg) (snd (main reg w body))) = [] \<and>
   register_calls (trace (snd (main reg w body))) = [new_FastMCP] \<and>
   length (register_calls (trace (snd (main reg w body)))) = 1 \<and>
   mcp (snd (main reg w body)) = mcp (module_init reg) \<and>
   mcp_tools (mcp (snd (main reg w body))) = mcp_tools (reg new_FastMCP) \<and>
   mcp_tools (mcp (snd (main reg w body))) = mcp_tools (mcp (snd (main reg w' body')))"
proof -
  have init: "register_calls (trace (module_init reg)) = [new_FastMCP]"
    "mcp (module_init reg) =
       (reg new_FastMCP)\<lparr>mcp_prompts := mcp_prompts (reg new_FastMCP) @ [''asset_creation_strategy'']\<rparr>"
    "mcp_tools (mcp (module_init reg)) = mcp_tools (reg new_FastMCP)"
    "Call_get_unity_connection \<notin> set (trace (module_init reg))"
    by (simp_all add: module_init_eq)
  have tr: "trace (snd (main reg w body)) =
      trace (module_init reg) @ emitted (module_init reg) (snd (main reg w body))"
    unfolding main_def by (rule trace_server_lifespan)
  have no: "register_calls (emitted (module_init reg) (snd (main reg w body))) = []"
    unfolding main_def by (rule register_not_emitted)
  have app: "register_calls (xs @ ys) = register_calls xs @ register_calls ys" for xs ys
    by (induction xs rule: register_calls.induct) simp_all
  have cnt: "register_calls (trace (snd (main reg w body))) = [new_FastMCP]"
    using init(1) no by (subst tr) (simp add: app)
  have len: "length (register_calls (trace (snd (main reg w body)))) = 1"
    by (simp only: cnt) simp
  have m: "mcp (snd (main reg w body)) = mcp (module_init reg)" for w body
    unfolding main_def by (rule mcp_server_lifespan)
  have tools: "mcp_tools (mcp (snd (main reg w body))) = mcp_tools (reg new_FastMCP)" for w body
    by (simp only: m init(3))
  have same: "mcp_tools (mcp (snd (main reg w body))) = mcp_tools (mcp (snd (main reg w' body')))"
    by (simp only: tools)
  from init tr no cnt len m [of w body] tools [of w body] same show ?thesis by blast
qed

theorem tools_registered_once_at_import_witness:
  "mcp_tools (mcp (snd (main example_tools editor_running served))) =
     [''manage_editor'', ''execute_menu_item'', ''read_console'', ''manage_scene'',
      ''manage_gameobject'', ''manage_script'', ''manage_asset''] \<and>
   mcp_tools (mcp (snd (main example_tools editor_absent crashed))) =
     mcp_tools (mcp (snd (main example_tools editor_running served))) \<and>
   register_calls (trace (snd (main example_tools editor_absent crashed))) = [new_FastMCP]"
proof -
  note absent = tools_registered_once_at_import [of example_tools editor_absent crashed editor_running served]
  note running = tools_registered_once_at_import [of example_tools editor_running served editor_absent crashed]
  from running have tools:
    "mcp_tools (mcp (snd (main example_tools editor_running served))) = mcp_tools (example_tools new_FastMCP)"
    by blast
  from absent have same:
    "mcp_tools (mcp (snd (main example_tools editor_absent crashed))) =
     mcp_tools (mcp (snd (main example_tools editor_running served)))"
    by blast
  from absent have once:
    "register_calls (trace (snd (main example_tools editor_absent crashed))) = [new_FastMCP]"
    by blast
  have seven: "mcp_tools (example_tools new_FastMCP) =
     [''manage_editor'', ''execute_menu_item'', ''read_console'', ''manage_scene'',
      ''manage_gameobject'', ''manage_script'', ''manage_asset'']"
    by (simp add: example_tools_def new_FastMCP_def)
  from tools same once seven show ?thesis by (simp only:)
qed

text \<open>
  C6. When the startup call fails with an exception that the handler catches, the
  generator does not end: it yields the dictionary whose only key is bridge, with the value
  None, and the body runs with that dictionary.
\<close>

theorem failed_connection_yields_none_bridge:
  assumes "w (calls_so_far s) = Inl (Exception m)"
  shows "fst (startup w s) = Inr [''bridge'' \<mapsto> None] \<and>
    server_lifespan w body s = shutdown (body [''bridge'' \<mapsto> None]) (snd (startup w s))"
  using assms by (simp add: startup_failed server_lifespan_def)

theorem failed_connection_yields_none_bridge_witness:
  "editor_absent (calls_so_far (module_init example_tools)) = Inl (Exception ''Connection refused'') \<and>
   fst (startup editor_absent (module_init example_tools)) = Inr [''bridge'' \<mapsto> None] \<and>
   dom [''bridge'' \<mapsto> (None :: UnityConnection option)] = {''bridge''}"
proof -
  have h: "editor_absent (calls_so_far (module_init example_tools)) = Inl (Exception ''Connection refused'')"
    by (simp add: editor_absent_def)
  show ?thesis
    using failed_connection_yields_none_bridge
      [of editor_absent "module_init example_tools" "''Connection refused''" served] h
    by simp
qed

text \<open>
  C7. The segment after the yield never calls disconnect on None. When it calls disconnect
  at all, the global holds a connection and the call is on that connection; when the
  global is None it only writes the last line of the log and ends the way it was entered.
\<close>

theorem disconnect_only_on_present_connection:
  "None \<notin> set (disconnect_calls (emitted s (snd (shutdown r s)))) \<and>
   (disconnect_calls (emitted s (snd (shutdown r s))) \<noteq> [] \<longrightarrow>
      unity_connection s \<noteq> None \<and>
      disconnect_calls (emitted s (snd (shutdown r s))) = [unity_connection s]) \<and>
   (unity_connection s = None \<longrightarrow>
      emitted s (snd (shutdown r s)) = [Log_info ''UnityMCP server shut down''] \<and>
      fst (shutdown r s) = leaves r)"
  by (cases s r rule: shutdown_cases) (auto simp: py_bool_def)

theorem disconnect_only_on_present_connection_witness:
  "unity_connection (module_init example_tools) = None \<and>
   emitted (module_init example_tools) (snd (shutdown (Throw (Exception ''stdin closed'')) (module_init example_tools))) =
     [Log_info ''UnityMCP server shut down''] \<and>
   fst (shutdown (Throw (Exception ''stdin closed'')) (module_init example_tools)) =
     Some (Exception ''stdin closed'') \<and>
   disconnect_calls (emitted (snd (startup editor_running (module_init example_tools)))
     (snd (shutdown Resume (snd (startup editor_running (module_init example_tools)))))) =
     [Some example_connection]"
proof -
  have h: "editor_running (calls_so_far (module_init example_tools)) = Inr example_connection"
    by (simp add: editor_running_def)
  have c: "truthy example_connection" "disconnect_raises example_connection = None"
    by (simp_all add: example_connection_def)
  have st: "startup editor_running (module_init example_tools) =
      (Inr [''bridge'' \<mapsto> Some example_connection],
       (module_init example_tools)\<lparr>unity_connection := Some example_connection,
         trace := trace (module_init example_tools) @
           [Log_info ''UnityMCP server starting up'', Call_get_unity_connection,
            Assign_unity_connection (Some example_connection),
            Log_info ''Connected to Unity on startup'']\<rparr>)"
    using h by (rule startup_connected)
  have d: "disconnect_calls (emitted (snd (startup editor_running (module_init example_tools)))
     (snd (shutdown Resume (snd (startup editor_running (module_init example_tools)))))) \<noteq> []"
    using c by (simp add: st shutdown_disconnected emitted_def)
  show ?thesis
    using disconnect_only_on_present_connection
        [of "module_init example_tools" "Throw (Exception ''stdin closed'')"]
      disconnect_only_on_present_connection
        [of "snd (startup editor_running (module_init example_tools))" Resume] d
    using c by (simp add: leaves_def st shutdown_disconnected emitted_def)
qed

text \<open>
  C8. asset_creation_strategy returns the same string in every state. The string holds
  the two characters backslash and n in a row, and no newline character. It has 696
  characters.
\<close>

theorem asset_creation_strategy_constant:
  "asset_creation_strategy s = asset_creation_strategy s' \<and>
   bsn = [CHR 0x5C, CHR ''n''] \<and>
   sublist bsn (asset_creation_strategy s) \<and>
   CHR 0x0A \<notin> set (asset_creation_strategy s) \<and>
   length (asset_creation_strategy s) = 696"
proof (intro conjI)
  show "asset_creation_strategy s = asset_creation_strategy s'"
    by (simp add: asset_creation_strategy_def)
  show "bsn = [CHR 0x5C, CHR ''n'']"
    by (simp add: bsn_def)
  show "sublist bsn (asset_creation_strategy s)"
    unfolding asset_creation_strategy_def by (rule sublist_appendI)
  show "CHR 0x0A \<notin> set (asset_creation_strategy s)"
    by (simp add: asset_creation_strategy_def bsn_def)
  show "length (asset_creation_strategy s) = 696"
    by (simp add: asset_creation_strategy_def bsn_def)
qed

theorem asset_creation_strategy_constant_witness:
  "asset_creation_strategy (snd (main example_tools editor_running served)) =
     asset_creation_strategy (snd (main example_tools editor_absent crashed)) \<and>
   take 35 (asset_creation_strategy (module_init example_tools)) =
     ''Available Unity MCP Server Tools:'' @ [CHR 0x5C, CHR ''n'']"
  using asset_creation_strategy_constant
    [of "snd (main example_tools editor_running served)" "snd (main example_tools editor_absent crashed)"]
  by (simp add: asset_creation_strategy_def bsn_def)

end
